theory Spec2Isabelle
  imports Main
begin

section \<open>The Python runtime as scripts/lint.py sees it\<close>

text \<open>
  The script is straight-line module-level code. Everything it touches outside itself is a
  service of the Python runtime: the inherited environment (\<open>os.environ\<close>), the temporary
  directory (\<open>tempfile.gettempdir()\<close>), path joining (\<open>os.path.join\<close>), child processes
  (\<open>subprocess.run\<close>) and the standard output (\<open>print\<close>). These services are the
  parameters of the model; the script itself is translated line by line.
\<close>

type_synonym environment = "string \<rightharpoonup> string"

text \<open>The exceptions the runtime services used by the script can raise.\<close>

datatype error = FileNotFoundError | PermissionError | OSError | UnicodeDecodeError

text \<open>What a child process leaves behind when it terminates.\<close>

record child_exit =
  status :: int
  out :: string
  err :: string

text \<open>\<open>subprocess.CompletedProcess\<close>, with both streams captured as text.\<close>

record CompletedProcess =
  args :: "string list"
  returncode :: int
  stdout :: string
  stderr :: string

text \<open>
  The platform: \<open>'w\<close> is the state of the world outside the script (file system, build
  caches) that a child process reads and changes. \<open>child cmd e w\<close> runs the command
  \<open>cmd\<close> with environment \<open>e\<close> in world \<open>w\<close> to its end; it yields the exception
  raised by \<open>subprocess.run\<close> (the executable is missing, the output does not decode) or
  what the child left, and the world after it. \<open>os_path_join\<close> is the platform's
  \<open>os.path.join\<close> (posixpath or ntpath), \<open>tempfile_gettempdir\<close> the outcome of
  \<open>tempfile.gettempdir()\<close>, which raises when no usable directory is found.
\<close>

record 'w platform =
  os_environ :: environment
  tempfile_gettempdir :: "error + string"
  os_path_join :: "string \<Rightarrow> string \<Rightarrow> string"
  child :: "string list \<Rightarrow> environment \<Rightarrow> 'w \<Rightarrow> (error + child_exit) \<times> 'w"

text \<open>What an observer of the running script sees, in order.\<close>

datatype event =
    Started "string list" environment
  | Completed "string list" int
  | Printed string

text \<open>The state of the running script: the world, its own standard output so far, and
  the events so far.\<close>

record 'w state =
  world :: 'w
  sys_stdout :: string
  events :: "event list"

text \<open>
  \<open>subprocess.run(cmd, capture_output=True, text=True, env=...)\<close>. With \<open>env=None\<close> the
  child inherits the environment of the script's own process. The call blocks: it starts the
  child, waits for it to terminate while collecting both streams, and only then returns. No
  \<open>check=True\<close> is passed, so the return code is stored and never inspected.
\<close>

definition subprocess_run ::
  "'w platform \<Rightarrow> string list \<Rightarrow> environment option \<Rightarrow> 'w state
     \<Rightarrow> (error + CompletedProcess) \<times> 'w state" where
  "subprocess_run p cmd env_arg s =
     (let child_env = (case env_arg of None \<Rightarrow> os_environ p | Some e \<Rightarrow> e);
          s1 = s\<lparr>events := events s @ [Started cmd child_env]\<rparr>
      in case child p cmd child_env (world s1) of
           (Inl ex, w') \<Rightarrow> (Inl ex, s1\<lparr>world := w'\<rparr>)
         | (Inr x, w') \<Rightarrow>
             (Inr \<lparr>args = cmd, returncode = status x, stdout = out x, stderr = err x\<rparr>,
              s1\<lparr>world := w', events := events s1 @ [Completed cmd (status x)]\<rparr>))"

text \<open>\<open>print(x)\<close>: writes the text and one newline to the standard output.\<close>

definition print :: "string \<Rightarrow> 'w state \<Rightarrow> 'w state" where
  "print x s =
     s\<lparr>sys_stdout := sys_stdout s @ x @ [CHR 0x0A], events := events s @ [Printed x]\<rparr>"

section \<open>scripts/lint.py\<close>

text \<open>Lines 6 and 7: a copy of the inherited environment with one key assigned.\<close>

definition env :: "'w platform \<Rightarrow> error + environment" where
  "env p =
     (case tempfile_gettempdir p of
        Inl ex \<Rightarrow> Inl ex
      | Inr tmp \<Rightarrow>
          Inr ((os_environ p)(''CARGO_TARGET_DIR'' \<mapsto> os_path_join p tmp ''dylint'')))"

text \<open>Lines 9 to 17. Lines 14 and 15 are two adjacent string literals with no comma
  between them, which Python concatenates into one element.\<close>

definition dylint_command :: "string list" where
  "dylint_command =
     [''cargo'',
      ''dylint'',
      ''--all'',
      ''--'',
      ''--no-default-features'' @ ''--all-targets'',
      ''--message-format=json'']"

text \<open>Line 20.\<close>

definition clippy_command :: "string list" where
  "clippy_command =
     [''cargo'', ''clippy'', ''--all-targets'', ''--message-format=json'',
      ''--no-default-features'']"

text \<open>
  The whole module, started in world \<open>w\<close> with nothing written yet. An exception raised
  by a runtime service is not caught anywhere, so it ends the script where it is raised.
\<close>

definition lint :: "'w platform \<Rightarrow> 'w \<Rightarrow> (error + unit) \<times> 'w state" where
  "lint p w =
     (let s0 = \<lparr>world = w, sys_stdout = [], events = []\<rparr> in
      case env p of
        Inl ex \<Rightarrow> (Inl ex, s0)
      | Inr e \<Rightarrow>
          (case subprocess_run p dylint_command (Some e) s0 of
             (Inl ex, s1) \<Rightarrow> (Inl ex, s1)
           | (Inr dylint_output, s1) \<Rightarrow>
               (case subprocess_run p clippy_command None s1 of
                  (Inl ex, s2) \<Rightarrow> (Inl ex, s2)
                | (Inr clippy_output, s2) \<Rightarrow>
                    (let combined_output = stdout dylint_output @ stdout clippy_output
                     in (Inr (), print combined_output s2)))))"

text \<open>The exit status of the interpreter: 0 when the module runs to its end, 1 when an
  exception propagates out of it.\<close>

definition exit_status :: "(error + unit) \<times> 'w state \<Rightarrow> int" where
  "exit_status r = (case fst r of Inl _ \<Rightarrow> 1 | Inr _ \<Rightarrow> 0)"

text \<open>The text the script has written to its standard output when it ends.\<close>

definition written :: "(error + unit) \<times> 'w state \<Rightarrow> string" where
  "written r = sys_stdout (snd r)"

definition trace :: "(error + unit) \<times> 'w state \<Rightarrow> event list" where
  "trace r = events (snd r)"

section \<open>Stub tools\<close>

text \<open>\<open>posixpath.join\<close> for two arguments, used by the stub platforms below.\<close>

definition posix_join :: "string \<Rightarrow> string \<Rightarrow> string" where
  "posix_join a b =
     (if take 1 b = ''/'' then b
      else if a = [] \<or> last a = CHR ''/'' then a @ b
      else a @ ''/'' @ b)"

text \<open>
  A stub \<open>cargo\<close>: \<open>cargo dylint\<close> prints \<open>A-OUT\<close>, complains on its error stream and
  fails with status 101; every other subcommand prints \<open>B-OUT\<close> and succeeds. The world is a
  counter of the children run so far.
\<close>

definition stub_cargo :: "string list \<Rightarrow> environment \<Rightarrow> nat \<Rightarrow> (error + child_exit) \<times> nat" where
  "stub_cargo cmd e w =
     (if take 2 cmd = [''cargo'', ''dylint'']
      then (Inr \<lparr>status = 101, out = ''A-OUT'', err = ''A-ERR''\<rparr>, Suc w)
      else (Inr \<lparr>status = 0, out = ''B-OUT'', err = ''''\<rparr>, Suc w))"

definition inherited :: environment where
  "inherited = [''PATH'' \<mapsto> ''/usr/bin'', ''CARGO_TARGET_DIR'' \<mapsto> ''target'']"

definition stub :: "nat platform" where
  "stub = \<lparr>os_environ = inherited, tempfile_gettempdir = Inr ''/tmp'',
           os_path_join = posix_join, child = stub_cargo\<rparr>"

text \<open>
  A second stub \<open>cargo\<close> that prints the same texts on its standard output, but writes
  other text to the error streams and always succeeds. Its platform has another temporary
  directory and inherits nothing.
\<close>

definition quiet_cargo :: "string list \<Rightarrow> environment \<Rightarrow> nat \<Rightarrow> (error + child_exit) \<times> nat" where
  "quiet_cargo cmd e w =
     (if take 2 cmd = [''cargo'', ''dylint'']
      then (Inr \<lparr>status = 0, out = ''A-OUT'', err = ''''\<rparr>, Suc w)
      else (Inr \<lparr>status = 0, out = ''B-OUT'', err = ''B-ERR''\<rparr>, Suc w))"

definition quiet_stub :: "nat platform" where
  "quiet_stub = \<lparr>os_environ = Map.empty, tempfile_gettempdir = Inr ''/var/tmp/'',
                 os_path_join = posix_join, child = quiet_cargo\<rparr>"



section \<open>Running the script\<close>

text \<open>The outcome of a run in which both children terminate.\<close>

lemma lint_completed:
  assumes "tempfile_gettempdir p = Inr tmp"
    and "child p dylint_command
           ((os_environ p)(''CARGO_TARGET_DIR'' \<mapsto> os_path_join p tmp ''dylint'')) w = (Inr a, w1)"
    and "child p clippy_command (os_environ p) w1 = (Inr b, w2)"
  shows "lint p w =
           (Inr (),
            \<lparr>world = w2, sys_stdout = out a @ out b @ [CHR 0x0A],
             events =
               [Started dylint_command
                  ((os_environ p)(''CARGO_TARGET_DIR'' \<mapsto> os_path_join p tmp ''dylint'')),
                Completed dylint_command (status a),
                Started clippy_command (os_environ p),
                Completed clippy_command (status b),
                Printed (out a @ out b)]\<rparr>)"
  using assms by (simp add: lint_def env_def subprocess_run_def print_def Let_def)

text \<open>The events of a run in which the temporary directory resolves.\<close>

lemma lint_started:
  assumes "tempfile_gettempdir p = Inr tmp"
  shows "\<exists>rest. trace (lint p w) =
            Started dylint_command
               ((os_environ p)(''CARGO_TARGET_DIR'' \<mapsto> os_path_join p tmp ''dylint'')) # rest"
  using assms
  by (auto simp: trace_def lint_def env_def subprocess_run_def print_def Let_def
      split: sum.splits prod.splits)

text \<open>The events of a run in which the first child terminates.\<close>

lemma lint_dylint_completed:
  assumes "tempfile_gettempdir p = Inr tmp"
    and "child p dylint_command
           ((os_environ p)(''CARGO_TARGET_DIR'' \<mapsto> os_path_join p tmp ''dylint'')) w = (Inr a, w1)"
  shows "\<exists>rest. trace (lint p w) =
            [Started dylint_command
               ((os_environ p)(''CARGO_TARGET_DIR'' \<mapsto> os_path_join p tmp ''dylint'')),
             Completed dylint_command (status a),
             Started clippy_command (os_environ p)] @ rest
           \<and> (\<forall>x \<in> set rest. \<forall>c e. x \<noteq> Started c e)"
  using assms
  by (auto simp: trace_def lint_def env_def subprocess_run_def print_def Let_def
      split: sum.splits prod.splits)

text \<open>Every run, whatever the platform does, leaves one of four event sequences: each is a
  prefix of the last.\<close>

lemma trace_shapes:
  "trace (lint p w) = []
   \<or> (\<exists>e. trace (lint p w) = [Started dylint_command e])
   \<or> (\<exists>e ra. trace (lint p w) =
         [Started dylint_command e, Completed dylint_command ra,
          Started clippy_command (os_environ p)])
   \<or> (\<exists>e ra rb t. trace (lint p w) =
         [Started dylint_command e, Completed dylint_command ra,
          Started clippy_command (os_environ p), Completed clippy_command rb, Printed t])"
  by (auto simp: trace_def lint_def env_def subprocess_run_def print_def Let_def
      split: sum.splits prod.splits)

lemma commands_differ: "dylint_command \<noteq> clippy_command"
  by (simp add: dylint_command_def clippy_command_def)

text \<open>The stub platform, evaluated.\<close>

lemma stub_tmp: "tempfile_gettempdir stub = Inr ''/tmp''"
  by (simp add: stub_def)

lemma stub_dylint:
  "child stub dylint_command
     ((os_environ stub)(''CARGO_TARGET_DIR'' \<mapsto> os_path_join stub ''/tmp'' ''dylint'')) 0 =
   (Inr \<lparr>status = 101, out = ''A-OUT'', err = ''A-ERR''\<rparr>, Suc 0)"
  by (simp add: stub_def stub_cargo_def dylint_command_def)

lemma stub_clippy:
  "child stub clippy_command (os_environ stub) (Suc 0) =
   (Inr \<lparr>status = 0, out = ''B-OUT'', err = ''''\<rparr>, Suc (Suc 0))"
  by (simp add: stub_def stub_cargo_def clippy_command_def)

lemma quiet_tmp: "tempfile_gettempdir quiet_stub = Inr ''/var/tmp/''"
  by (simp add: quiet_stub_def)

lemma quiet_dylint:
  "child quiet_stub dylint_command
     ((os_environ quiet_stub)
        (''CARGO_TARGET_DIR'' \<mapsto> os_path_join quiet_stub ''/var/tmp/'' ''dylint'')) 7 =
   (Inr \<lparr>status = 0, out = ''A-OUT'', err = ''''\<rparr>, Suc 7)"
  by (simp add: quiet_stub_def quiet_cargo_def dylint_command_def)

lemma quiet_clippy:
  "child quiet_stub clippy_command (os_environ quiet_stub) (Suc 7) =
   (Inr \<lparr>status = 0, out = ''B-OUT'', err = ''B-ERR''\<rparr>, Suc (Suc 7))"
  by (simp add: quiet_stub_def quiet_cargo_def clippy_command_def)

section \<open>The printed text\<close>

text \<open>
  C1. Whatever the two tools leave as captured results, the script's whole standard output
  is the first tool's captured standard-output text, immediately followed by the second
  tool's, followed by one newline; nothing is put between them.
\<close>

theorem combined_output_printed:
  assumes "tempfile_gettempdir p = Inr tmp"
    and "child p dylint_command
           ((os_environ p)(''CARGO_TARGET_DIR'' \<mapsto> os_path_join p tmp ''dylint'')) w = (Inr a, w1)"
    and "child p clippy_command (os_environ p) w1 = (Inr b, w2)"
  shows "written (lint p w) = out a @ out b @ [CHR 0x0A]"
  by (simp add: lint_completed[OF assms] written_def)

text \<open>With the stub tools printing \<open>A-OUT\<close> and \<open>B-OUT\<close> the output is \<open>A-OUTB-OUT\<close> and
  a newline.\<close>

theorem combined_output_printed_witness:
  "written (lint stub 0) = ''A-OUTB-OUT'' @ [CHR 0x0A]"
  using combined_output_printed[OF stub_tmp stub_dylint stub_clippy] by simp

text \<open>
  C2. The printed text is built from the two captured standard-output texts only. Two runs
  whose tools print the same on standard output print the same, whatever the tools write
  to their error streams (and whatever their statuses, environments and worlds are).
\<close>

theorem stderr_never_printed:
  assumes "tempfile_gettempdir p = Inr tmp"
    and "child p dylint_command
           ((os_environ p)(''CARGO_TARGET_DIR'' \<mapsto> os_path_join p tmp ''dylint'')) w = (Inr a, w1)"
    and "child p clippy_command (os_environ p) w1 = (Inr b, w2)"
    and "tempfile_gettempdir p' = Inr tmp'"
    and "child p' dylint_command
           ((os_environ p')(''CARGO_TARGET_DIR'' \<mapsto> os_path_join p' tmp' ''dylint'')) w' = (Inr a', w1')"
    and "child p' clippy_command (os_environ p') w1' = (Inr b', w2')"
    and "out a' = out a" and "out b' = out b"
  shows "written (lint p w) = out a @ out b @ [CHR 0x0A] \<and> written (lint p' w') = written (lint p w)"
  using assms(7,8)
  by (simp add: lint_completed[OF assms(1,2,3)] lint_completed[OF assms(4,5,6)] written_def)

theorem stderr_never_printed_witness:
  "err \<lparr>status = 101, out = ''A-OUT'', err = ''A-ERR''\<rparr> \<noteq> err \<lparr>status = 0, out = ''A-OUT'', err = ''''\<rparr>
   \<and> written (lint stub 0) = ''A-OUTB-OUT'' @ [CHR 0x0A]
   \<and> written (lint quiet_stub 7) = written (lint stub 0)"
  using stderr_never_printed[OF stub_tmp stub_dylint stub_clippy quiet_tmp quiet_dylint quiet_clippy]
  by simp


section \<open>The environments of the two children\<close>

text \<open>
  C3. The first tool is started with the inherited environment in which exactly one key is
  assigned: \<open>CARGO_TARGET_DIR\<close> is the temporary directory joined with \<open>dylint\<close>, and
  every other variable is as inherited (set where it was set, unset where it was unset).
\<close>

theorem dylint_environment:
  assumes "tempfile_gettempdir p = Inr tmp"
  shows "\<exists>e rest. trace (lint p w) = Started dylint_command e # rest
           \<and> e ''CARGO_TARGET_DIR'' = Some (os_path_join p tmp ''dylint'')
           \<and> (\<forall>k. k \<noteq> ''CARGO_TARGET_DIR'' \<longrightarrow> e k = os_environ p k)"
proof -
  from lint_started[OF assms, of w] obtain rest where
    "trace (lint p w) =
       Started dylint_command
         ((os_environ p)(''CARGO_TARGET_DIR'' \<mapsto> os_path_join p tmp ''dylint'')) # rest"
    by blast
  then show ?thesis by force
qed

theorem dylint_environment_witness:
  "\<exists>e rest. trace (lint stub 0) = Started dylint_command e # rest
     \<and> e ''CARGO_TARGET_DIR'' = Some ''/tmp/dylint''
     \<and> e ''PATH'' = Some ''/usr/bin'' \<and> e ''HOME'' = None"
proof -
  from dylint_environment[OF stub_tmp, of 0] obtain e rest where
    tr: "trace (lint stub 0) = Started dylint_command e # rest"
    and dir: "e ''CARGO_TARGET_DIR'' = Some (os_path_join stub ''/tmp'' ''dylint'')"
    and frame: "\<forall>k. k \<noteq> ''CARGO_TARGET_DIR'' \<longrightarrow> e k = os_environ stub k"
    by blast
  from dir have "e ''CARGO_TARGET_DIR'' = Some ''/tmp/dylint''"
    by (simp add: stub_def posix_join_def)
  moreover from frame have "e ''PATH'' = Some ''/usr/bin''"
    by (simp add: stub_def inherited_def)
  moreover from frame have "e ''HOME'' = None"
    by (simp add: stub_def inherited_def)
  ultimately show ?thesis using tr by blast
qed

text \<open>
  C4. The second tool is started with the inherited environment itself: once the first
  tool has terminated, the second is started with \<open>os.environ\<close>, and no run starts it
  with anything else. The override made for the first tool is not part of it.
\<close>

theorem clippy_environment:
  assumes "tempfile_gettempdir p = Inr tmp"
    and "child p dylint_command
           ((os_environ p)(''CARGO_TARGET_DIR'' \<mapsto> os_path_join p tmp ''dylint'')) w = (Inr a, w1)"
  shows "Started clippy_command (os_environ p) \<in> set (trace (lint p w))
         \<and> (\<forall>e. Started clippy_command e \<in> set (trace (lint p w)) \<longrightarrow> e = os_environ p)"
proof -
  from lint_dylint_completed[OF assms] obtain rest where
    tr: "trace (lint p w) =
       [Started dylint_command
          ((os_environ p)(''CARGO_TARGET_DIR'' \<mapsto> os_path_join p tmp ''dylint'')),
        Completed dylint_command (status a),
        Started clippy_command (os_environ p)] @ rest"
    and rest: "\<forall>x \<in> set rest. \<forall>c e. x \<noteq> Started c e"
    by blast
  from tr have "Started clippy_command (os_environ p) \<in> set (trace (lint p w))"
    by simp
  moreover have "e = os_environ p" if "Started clippy_command e \<in> set (trace (lint p w))" for e
    using that tr rest commands_differ by auto
  ultimately show ?thesis by blast
qed

theorem clippy_environment_witness:
  "Started clippy_command inherited \<in> set (trace (lint stub 0))
   \<and> inherited ''CARGO_TARGET_DIR'' = Some ''target''
   \<and> Started clippy_command (inherited(''CARGO_TARGET_DIR'' \<mapsto> ''/tmp/dylint''))
       \<notin> set (trace (lint stub 0))"
proof -
  have inh: "os_environ stub = inherited"
    by (simp add: stub_def)
  have target: "inherited ''CARGO_TARGET_DIR'' = Some ''target''"
    by (simp add: inherited_def)
  have "inherited(''CARGO_TARGET_DIR'' \<mapsto> ''/tmp/dylint'') \<noteq> inherited"
  proof
    assume "inherited(''CARGO_TARGET_DIR'' \<mapsto> ''/tmp/dylint'') = inherited"
    then have "(inherited(''CARGO_TARGET_DIR'' \<mapsto> ''/tmp/dylint'')) ''CARGO_TARGET_DIR''
               = inherited ''CARGO_TARGET_DIR''"
      by simp
    with target show False by simp
  qed
  with target show ?thesis
    using clippy_environment[OF stub_tmp stub_dylint] by (auto simp: inh)
qed

section \<open>Exit statuses of the tools\<close>

text \<open>
  C5. Whatever the exit status of the first tool, the script goes on: it starts the second
  tool, and when that one terminates too, with whatever status, the script raises nothing
  and prints the concatenated output.
\<close>

theorem no_early_abort:
  assumes "tempfile_gettempdir p = Inr tmp"
    and "child p dylint_command
           ((os_environ p)(''CARGO_TARGET_DIR'' \<mapsto> os_path_join p tmp ''dylint'')) w =
         (Inr \<lparr>status = rc, out = oa, err = ea\<rparr>, w1)"
  shows "Started clippy_command (os_environ p) \<in> set (trace (lint p w))
         \<and> (\<forall>rc' ob eb w2.
               child p clippy_command (os_environ p) w1 =
                 (Inr \<lparr>status = rc', out = ob, err = eb\<rparr>, w2)
               \<longrightarrow> fst (lint p w) = Inr ()
                    \<and> written (lint p w) = oa @ ob @ [CHR 0x0A]
                    \<and> Printed (oa @ ob) \<in> set (trace (lint p w)))"
proof -
  from lint_dylint_completed[OF assms] have
    "Started clippy_command (os_environ p) \<in> set (trace (lint p w))"
    by auto
  moreover have "fst (lint p w) = Inr () \<and> written (lint p w) = oa @ ob @ [CHR 0x0A]
      \<and> Printed (oa @ ob) \<in> set (trace (lint p w))"
    if "child p clippy_command (os_environ p) w1 = (Inr \<lparr>status = rc', out = ob, err = eb\<rparr>, w2)"
    for rc' ob eb w2
    by (simp add: lint_completed[OF assms that] written_def trace_def)
  ultimately show ?thesis by blast
qed

theorem no_early_abort_witness:
  "(101::int) \<noteq> 0
   \<and> Started clippy_command (os_environ stub) \<in> set (trace (lint stub 0))
   \<and> fst (lint stub 0) = Inr ()
   \<and> written (lint stub 0) = ''A-OUTB-OUT'' @ [CHR 0x0A]"
  using no_early_abort[OF stub_tmp stub_dylint] stub_clippy by simp

text \<open>
  C6. Whatever the two exit statuses of the tools, the exit status of the script is 0:
  neither status is looked at.
\<close>

theorem exit_status_ignores_tools:
  assumes "tempfile_gettempdir p = Inr tmp"
    and "child p dylint_command
           ((os_environ p)(''CARGO_TARGET_DIR'' \<mapsto> os_path_join p tmp ''dylint'')) w =
         (Inr \<lparr>status = rc_a, out = oa, err = ea\<rparr>, w1)"
    and "child p clippy_command (os_environ p) w1 =
         (Inr \<lparr>status = rc_b, out = ob, err = eb\<rparr>, w2)"
  shows "exit_status (lint p w) = 0"
  by (simp add: lint_completed[OF assms] exit_status_def)

theorem exit_status_ignores_tools_witness:
  "exit_status (lint stub 0) = 0 \<and> exit_status (lint quiet_stub 7) = 0"
  using exit_status_ignores_tools[OF stub_tmp stub_dylint stub_clippy]
    exit_status_ignores_tools[OF quiet_tmp quiet_dylint quiet_clippy]
  by simp


section \<open>Determinism\<close>



section \<open>Building the environment\<close>



section \<open>Order of execution\<close>

text \<open>
  C9. In every run the events are strictly sequential. A child that is started is the next
  to terminate, before anything else happens; the second tool is started only after the
  first has terminated; and the text is printed only after both have terminated.
\<close>

theorem strictly_sequential:
  "(trace (lint p w) = xs @ Started c e # y # ys \<longrightarrow> (\<exists>rc. y = Completed c rc))
   \<and> (trace (lint p w) = xs @ Started clippy_command e # ys
        \<longrightarrow> (\<exists>e' rc. xs = [Started dylint_command e', Completed dylint_command rc]))
   \<and> (trace (lint p w) = xs @ Printed t # ys
        \<longrightarrow> (\<exists>ra rb. Completed dylint_command ra \<in> set xs
                     \<and> Completed clippy_command rb \<in> set xs) \<and> ys = [])"
  using trace_shapes[of p w] commands_differ
  by (auto simp: append_eq_Cons_conv Cons_eq_append_conv)

theorem strictly_sequential_witness:
  "trace (lint stub 0) =
     [Started dylint_command (inherited(''CARGO_TARGET_DIR'' \<mapsto> ''/tmp/dylint'')),
      Completed dylint_command 101,
      Started clippy_command inherited,
      Completed clippy_command 0,
      Printed ''A-OUTB-OUT'']
   \<and> (\<exists>rc. Completed dylint_command 101 = Completed dylint_command rc)
   \<and> (\<exists>e' rc. [Started dylint_command (inherited(''CARGO_TARGET_DIR'' \<mapsto> ''/tmp/dylint'')),
                Completed dylint_command 101] =
               [Started dylint_command e', Completed dylint_command rc])
   \<and> (\<exists>ra rb.
         Completed dylint_command ra \<in>
           set [Started dylint_command (inherited(''CARGO_TARGET_DIR'' \<mapsto> ''/tmp/dylint'')),
                Completed dylint_command 101,
                Started clippy_command inherited,
                Completed clippy_command 0]
         \<and> Completed clippy_command rb \<in>
           set [Started dylint_command (inherited(''CARGO_TARGET_DIR'' \<mapsto> ''/tmp/dylint'')),
                Completed dylint_command 101,
                Started clippy_command inherited,
                Completed clippy_command 0])"
proof -
  let ?SA = "Started dylint_command (inherited(''CARGO_TARGET_DIR'' \<mapsto> ''/tmp/dylint''))"
  let ?CA = "Completed dylint_command 101"
  let ?SB = "Started clippy_command inherited"
  let ?CB = "Completed clippy_command 0"
  let ?P = "Printed ''A-OUTB-OUT''"
  have tr: "trace (lint stub 0) = [?SA, ?CA, ?SB, ?CB, ?P]"
    by (simp add: lint_completed[OF stub_tmp stub_dylint stub_clippy] trace_def)
      (simp add: stub_def posix_join_def)
  have 1: "trace (lint stub 0) = [] @ ?SA # ?CA # [?SB, ?CB, ?P]"
    and 2: "trace (lint stub 0) = [?SA, ?CA] @ ?SB # [?CB, ?P]"
    and 3: "trace (lint stub 0) = [?SA, ?CA, ?SB, ?CB] @ ?P # []"
    by (simp_all add: tr)
  from 1 strictly_sequential[where p = stub and w = 0 and xs = "[]" and c = dylint_command
      and e = "inherited(''CARGO_TARGET_DIR'' \<mapsto> ''/tmp/dylint'')" and y = ?CA
      and ys = "[?SB, ?CB, ?P]"]
  have "\<exists>rc. ?CA = Completed dylint_command rc"
    by blast
  moreover
  from 2 strictly_sequential[where p = stub and w = 0 and xs = "[?SA, ?CA]" and e = inherited
      and ys = "[?CB, ?P]"]
  have "\<exists>e' rc. [?SA, ?CA] = [Started dylint_command e', Completed dylint_command rc]"
    by blast
  moreover
  from 3 strictly_sequential[where p = stub and w = 0 and xs = "[?SA, ?CA, ?SB, ?CB]"
      and t = "''A-OUTB-OUT''" and ys = "[]"]
  have "\<exists>ra rb. Completed dylint_command ra \<in> set [?SA, ?CA, ?SB, ?CB]
                \<and> Completed clippy_command rb \<in> set [?SA, ?CA, ?SB, ?CB]"
    by blast
  ultimately show ?thesis using tr by blast
qed

section \<open>The command line of the first tool\<close>

text \<open>
  C10. The first tool is started with six arguments. The fifth is the single string
  \<open>--no-default-features--all-targets\<close>: neither \<open>--no-default-features\<close> nor
  \<open>--all-targets\<close> is an argument of its own.
\<close>

theorem dylint_command_joined_flags:
  assumes "tempfile_gettempdir p = Inr tmp"
  shows "dylint_command =
           [''cargo'', ''dylint'', ''--all'', ''--'', ''--no-default-features--all-targets'',
            ''--message-format=json'']
         \<and> length dylint_command = 6
         \<and> ''--no-default-features'' \<notin> set dylint_command
         \<and> ''--all-targets'' \<notin> set dylint_command
         \<and> (\<exists>e rest. trace (lint p w) =
               Started [''cargo'', ''dylint'', ''--all'', ''--'',
                        ''--no-default-features--all-targets'', ''--message-format=json''] e
               # rest)"
proof -
  have cmd: "dylint_command =
           [''cargo'', ''dylint'', ''--all'', ''--'', ''--no-default-features--all-targets'',
            ''--message-format=json'']"
    by (simp add: dylint_command_def)
  moreover have "length dylint_command = 6"
    by (simp add: dylint_command_def)
  moreover have "''--no-default-features'' \<notin> set dylint_command"
    by (simp add: dylint_command_def)
  moreover have "''--all-targets'' \<notin> set dylint_command"
    by (simp add: dylint_command_def)
  moreover from lint_started[OF assms, of w] cmd
  have "\<exists>e rest. trace (lint p w) =
               Started [''cargo'', ''dylint'', ''--all'', ''--'',
                        ''--no-default-features--all-targets'', ''--message-format=json''] e
               # rest"
    by metis
  ultimately show ?thesis by blast
qed

theorem dylint_command_joined_flags_witness:
  "\<exists>e rest. trace (lint stub 0) =
      Started [''cargo'', ''dylint'', ''--all'', ''--'',
               ''--no-default-features--all-targets'', ''--message-format=json''] e # rest"
  using dylint_command_joined_flags[OF stub_tmp, of 0] by blast

end
